theory Spec2Isabelle
  imports Main "HOL-Library.Word" "HOL-Library.Sublist"
begin

unbundle bit_operations_syntax

section \<open>Go library functions used by the query commands\<close>

subsection \<open>\<open>strings.TrimSpace\<close>\<close>

text \<open>
  A Go string is a sequence of bytes, here a \<^typ>\<open>string\<close>. \<open>strings.TrimSpace\<close> removes
  the leading and the trailing white space, "as defined by Unicode": the runes for which
  \<open>unicode.IsSpace\<close> holds, which are U+0009..U+000D, U+0020, U+0085, U+00A0, U+1680,
  U+2000..U+200A, U+2028, U+2029, U+202F, U+205F and U+3000. Go's UTF-8 decoder accepts
  only the shortest encoding of a code point, so a string starts (ends) with a white-space
  rune exactly when it starts (ends) with one of the byte sequences of \<open>white_space\<close>.
\<close>

definition white_space :: "string list" where
  "white_space =
    [[CHR 0x09], [CHR 0x0A], [CHR 0x0B], [CHR 0x0C], [CHR 0x0D], [CHR 0x20],
     [CHR 0xC2, CHR 0x85], [CHR 0xC2, CHR 0xA0],
     [CHR 0xE1, CHR 0x9A, CHR 0x80],
     [CHR 0xE2, CHR 0x80, CHR 0x80], [CHR 0xE2, CHR 0x80, CHR 0x81],
     [CHR 0xE2, CHR 0x80, CHR 0x82], [CHR 0xE2, CHR 0x80, CHR 0x83],
     [CHR 0xE2, CHR 0x80, CHR 0x84], [CHR 0xE2, CHR 0x80, CHR 0x85],
     [CHR 0xE2, CHR 0x80, CHR 0x86], [CHR 0xE2, CHR 0x80, CHR 0x87],
     [CHR 0xE2, CHR 0x80, CHR 0x88], [CHR 0xE2, CHR 0x80, CHR 0x89],
     [CHR 0xE2, CHR 0x80, CHR 0x8A],
     [CHR 0xE2, CHR 0x80, CHR 0xA8], [CHR 0xE2, CHR 0x80, CHR 0xA9],
     [CHR 0xE2, CHR 0x80, CHR 0xAF],
     [CHR 0xE2, CHR 0x81, CHR 0x9F],
     [CHR 0xE3, CHR 0x80, CHR 0x80]]"

definition leading_space :: "string \<Rightarrow> string option" where
  "leading_space s = find (\<lambda>w. prefix w s) white_space"

definition trailing_space :: "string \<Rightarrow> string option" where
  "trailing_space s = find (\<lambda>w. suffix w s) white_space"

function TrimLeftSpace :: "string \<Rightarrow> string" where
  "TrimLeftSpace s =
     (case leading_space s of
        None \<Rightarrow> s
      | Some w \<Rightarrow> TrimLeftSpace (drop (length w) s))"
  by pat_completeness auto
termination
proof (relation "measure length")
  fix s w
  assume "leading_space s = Some w"
  then have "w \<in> set white_space" and "prefix w s"
    by (auto simp: leading_space_def find_Some_iff)
  then have "w \<noteq> []" and "length w \<le> length s"
    by (auto simp: white_space_def prefix_def)
  then show "(drop (length w) s, s) \<in> measure length"
    by (cases w) auto
qed simp

function TrimRightSpace :: "string \<Rightarrow> string" where
  "TrimRightSpace s =
     (case trailing_space s of
        None \<Rightarrow> s
      | Some w \<Rightarrow> TrimRightSpace (take (length s - length w) s))"
  by pat_completeness auto
termination
proof (relation "measure length")
  fix s w
  assume "trailing_space s = Some w"
  then have "w \<in> set white_space" and "suffix w s"
    by (auto simp: trailing_space_def find_Some_iff)
  then have "w \<noteq> []" and "length w \<le> length s"
    by (auto simp: white_space_def suffix_def)
  then show "(take (length s - length w) s, s) \<in> measure length"
    by (cases w) auto
qed simp

definition TrimSpace :: "string \<Rightarrow> string" where
  "TrimSpace s = TrimRightSpace (TrimLeftSpace s)"

text \<open>
  The identifiers the specification calls blank: the empty string and the strings made
  of white-space runes only, where white space is what Unicode defines (the property
  White_Space), as Go has it.
\<close>

declare conj_cong [fundef_cong]

function blank :: "string \<Rightarrow> bool" where
  "blank s \<longleftrightarrow>
     s = [] \<or> (\<exists>w\<in>set white_space. prefix w s \<and> blank (drop (length w) s))"
  by pat_completeness auto
termination
proof (relation "measure length")
  fix s w :: string
  assume "w \<in> set white_space" and "prefix w s"
  then have "w \<noteq> []" and "length w \<le> length s"
    by (auto simp: white_space_def prefix_def)
  then show "(drop (length w) s, s) \<in> measure length"
    by (cases w) auto
qed simp

subsection \<open>\<open>strconv.ParseUint(s, 10, 64)\<close>\<close>

text \<open>
  The command parses the height with base 10 and bit size 64. \<open>ParseUint\<close> fails on the
  empty string, then reads the bytes from left to right: a byte that is no digit of the
  base is a syntax error, and a value that no longer fits is a range error, whichever
  comes first. The accumulator is an unsigned 64-bit integer, so its arithmetic wraps;
  the bytes are read as numbers below 256. No sign is accepted, and underscores only
  with base 0. On an error Go returns a number too, which the command ignores.
\<close>

datatype NumError = ErrSyntax | ErrRange

definition lower :: "nat \<Rightarrow> nat" where
  "lower c = c OR 0x20"

definition digit_of :: "char \<Rightarrow> nat option" where
  "digit_of c =
     (let b = of_char c :: nat in
      if 48 \<le> b \<and> b \<le> 57 then Some (b - 48)
      else if 97 \<le> lower b \<and> lower b \<le> 122 then Some (lower b - 97 + 10)
      else None)"

definition cutoff :: "64 word" where
  "cutoff = (- 1) div 10 + 1"

definition maxVal :: "64 word" where
  "maxVal = push_bit 64 1 - 1"

fun ParseUint_loop :: "64 word \<Rightarrow> string \<Rightarrow> NumError + 64 word" where
  "ParseUint_loop n [] = Inr n"
| "ParseUint_loop n (c # cs) =
     (case digit_of c of
        None \<Rightarrow> Inl ErrSyntax
      | Some d \<Rightarrow>
          if d \<ge> 10 then Inl ErrSyntax
          else if n \<ge> cutoff then Inl ErrRange
          else
            let n' = n * 10; n1 = n' + of_nat d in
            if n1 < n' \<or> n1 > maxVal then Inl ErrRange
            else ParseUint_loop n1 cs)"

definition ParseUint :: "string \<Rightarrow> NumError + 64 word" where
  "ParseUint s = (if s = [] then Inl ErrSyntax else ParseUint_loop 0 s)"

text \<open>
  What a height token denotes, independently of the parser: a non-empty string of the
  ASCII digits is the base-10 notation of \<open>decimal 0\<close> of it.
\<close>

definition is_digit :: "char \<Rightarrow> bool" where
  "is_digit c \<longleftrightarrow> 48 \<le> (of_char c :: nat) \<and> (of_char c :: nat) \<le> 57"

definition decimal :: "nat \<Rightarrow> string \<Rightarrow> nat" where
  "decimal = foldl (\<lambda>a c. a * 10 + (of_char c - 48))"

definition uint64_token :: "string \<Rightarrow> bool" where
  "uint64_token s \<longleftrightarrow> s \<noteq> [] \<and> list_all is_digit s \<and> decimal 0 s < 2 ^ 64"

section \<open>The command-line model\<close>

text \<open>
  A command returns an error or nil. The errors made in \<open>query.go\<close> carry their text
  (\<open>errors.New\<close>, \<open>fmt.Errorf\<close>); \<open>cobra.ExactArgs\<close> reports the number of
  arguments it wanted and the number it got; an error of a collaborator outside
  \<open>query.go\<close> (the query functions of \<open>utils\<close>, \<open>PrintOutput\<close>) is passed on as it is.
  Indexing \<open>args\<close> out of range is a run-time panic, kept as an outcome of its own.
\<close>

datatype 'e error =
    errorString string
  | ArgsError nat nat
  | Upstream 'e
  | IndexOutOfRange

text \<open>
  What a run does besides returning: the calls of a query function, with their
  arguments, and the values handed to \<open>PrintOutput\<close>, in order.
\<close>

datatype ('q, 'o) event = Lookup 'q | Output 'o

text \<open>
  Of \<open>cobra.Command\<close> the model keeps the argument validator, the boolean flags declared
  with \<open>cmd.Flags().Bool(name, default, usage)\<close> and \<open>RunE\<close>; the help texts are left
  out. \<open>RunE\<close> reads its flags through \<open>viper.GetBool\<close>, here its first argument.
\<close>

record ('k, 'e, 'q, 'o) Command =
  Args :: "string list \<Rightarrow> 'e error option"
  Flags :: "('k \<times> bool) list"
  RunE :: "('k \<Rightarrow> bool) \<Rightarrow> string list \<Rightarrow> 'e error option \<times> ('q, 'o) event list"

definition ExactArgs :: "nat \<Rightarrow> string list \<Rightarrow> 'e error option" where
  "ExactArgs n args = (if length args \<noteq> n then Some (ArgsError n (length args)) else None)"

definition ArbitraryArgs :: "string list \<Rightarrow> 'e error option" where
  "ArbitraryArgs args = None"

text \<open>
  \<open>viper.GetBool\<close> where a flag set is bound to viper (\<open>viper.BindPFlags\<close>): the value
  the caller supplied for the key, otherwise the default the flag was declared with,
  otherwise false. With no flag set bound, \<open>flags = []\<close>, it reads false for every key
  that was not supplied. \<open>query.go\<close> declares its flags on the command and reads them
  through viper; it binds nothing itself, the program that runs the command does.
\<close>

definition viper_GetBool :: "('k \<rightharpoonup> bool) \<Rightarrow> ('k \<times> bool) list \<Rightarrow> 'k \<Rightarrow> bool" where
  "viper_GetBool supplied flags k =
     (case supplied k of
        Some b \<Rightarrow> b
      | None \<Rightarrow> (case map_of flags k of Some d \<Rightarrow> d | None \<Rightarrow> False))"

text \<open>
  \<open>Execute\<close> runs a command as the command-line program does: the argument validator
  first, then \<open>RunE\<close> with viper bound to the command's own flags. What is claimed of the
  value a flag reads is stated on \<open>RunE\<close> instead, with viper as it is given and the
  binding as a hypothesis: \<open>flags_bound\<close> says that for every flag the command declares,
  viper reads the supplied value or else the declared default.
\<close>

definition Execute ::
  "('k, 'e, 'q, 'o) Command \<Rightarrow> ('k \<rightharpoonup> bool) \<Rightarrow> string list \<Rightarrow>
     'e error option \<times> ('q, 'o) event list" where
  "Execute cmd supplied args =
     (case Args cmd args of
        Some err \<Rightarrow> (Some err, [])
      | None \<Rightarrow> RunE cmd (viper_GetBool supplied (Flags cmd)) args)"


subsection \<open>The query commands\<close>

text \<open>
  The collaborators declared outside \<open>query.go\<close> are parameters: \<open>FlagProve\<close> is the
  key \<open>flags.FlagProve\<close>; \<open>QueryClientState\<close>, \<open>QueryConsensusStateProof\<close> and
  \<open>QueryCommitmentRoot\<close> are the functions of \<open>utils\<close> applied to the CLI context, and
  return, as in Go, a result together with an error or nil; \<open>PrintOutput\<close> is
  \<open>cliCtx.PrintOutput\<close>. Building the CLI context, the first statement of every
  \<open>RunE\<close>, has no part in what follows but as the argument of these collaborators, and
  is left out. Each \<open>RunE\<close> body follows the source statement by statement:
  \<open>GetCmdQueryClientState\<close> is lines 22 to 53 of
  \<open>x/ibc/02-client/client/cli/query.go\<close>, \<open>GetCmdQueryConsensusState\<close> lines 57 to 83,
  \<open>GetCmdQueryRoot\<close> lines 86 to 122, \<open>GetCmdQueryHeader\<close> lines 125 to 142,
  \<open>GetCmdNodeConsensusState\<close> lines 146 to 169 and \<open>GetCmdQueryPath\<close> lines 172 to
  182.
\<close>

definition GetCmdQueryClientState ::
  "'k \<Rightarrow> (string \<Rightarrow> bool \<Rightarrow> 'r \<times> 'e option) \<Rightarrow> ('r \<Rightarrow> 'e option) \<Rightarrow> string \<Rightarrow>
     ('k, 'e, string \<times> bool, 'r) Command" where
  "GetCmdQueryClientState FlagProve QueryClientState PrintOutput queryRoute =
     \<lparr>Args = ExactArgs 1,
      Flags = [(FlagProve, True)],
      RunE = (\<lambda>viper args.
        case args of
          [] \<Rightarrow> (Some IndexOutOfRange, [])
        | clientID # _ \<Rightarrow>
            if TrimSpace clientID = [] then
              (Some (errorString ''client ID can't be blank''), [])
            else
              let prove = viper FlagProve in
              (case QueryClientState clientID prove of
                 (clientStateRes, Some err) \<Rightarrow>
                   (Some (Upstream err), [Lookup (clientID, prove)])
               | (clientStateRes, None) \<Rightarrow>
                   (map_option Upstream (PrintOutput clientStateRes),
                    [Lookup (clientID, prove), Output clientStateRes])))\<rparr>"

definition GetCmdQueryConsensusState ::
  "'k \<Rightarrow> (string \<Rightarrow> bool \<Rightarrow> 'r \<times> 'e option) \<Rightarrow> ('r \<Rightarrow> 'e option) \<Rightarrow> string \<Rightarrow>
     ('k, 'e, string \<times> bool, 'r) Command" where
  "GetCmdQueryConsensusState FlagProve QueryConsensusStateProof PrintOutput queryRoute =
     \<lparr>Args = ExactArgs 1,
      Flags = [(FlagProve, True)],
      RunE = (\<lambda>viper args.
        case args of
          [] \<Rightarrow> (Some IndexOutOfRange, [])
        | clientID # _ \<Rightarrow>
            if TrimSpace clientID = [] then
              (Some (errorString ''client ID can't be blank''), [])
            else
              let prove = viper FlagProve in
              (case QueryConsensusStateProof clientID prove of
                 (csRes, Some err) \<Rightarrow>
                   (Some (Upstream err), [Lookup (clientID, prove)])
               | (csRes, None) \<Rightarrow>
                   (map_option Upstream (PrintOutput csRes),
                    [Lookup (clientID, prove), Output csRes])))\<rparr>"

definition GetCmdQueryRoot ::
  "'k \<Rightarrow> (string \<Rightarrow> 64 word \<Rightarrow> bool \<Rightarrow> 'r \<times> 'e option) \<Rightarrow> ('r \<Rightarrow> 'e option) \<Rightarrow> string \<Rightarrow>
     ('k, 'e, string \<times> 64 word \<times> bool, 'r) Command" where
  "GetCmdQueryRoot FlagProve QueryCommitmentRoot PrintOutput queryRoute =
     \<lparr>Args = ExactArgs 2,
      Flags = [(FlagProve, True)],
      RunE = (\<lambda>viper args.
        case args of
          [] \<Rightarrow> (Some IndexOutOfRange, [])
        | clientID # rest \<Rightarrow>
            if TrimSpace clientID = [] then
              (Some (errorString ''client ID can't be blank''), [])
            else
              (case rest of
                 [] \<Rightarrow> (Some IndexOutOfRange, [])
               | arg1 # _ \<Rightarrow>
                   (case ParseUint arg1 of
                      Inl _ \<Rightarrow>
                        (Some (errorString (''expected integer height, got: '' @ arg1)), [])
                    | Inr height \<Rightarrow>
                        let prove = viper FlagProve in
                        (case QueryCommitmentRoot clientID height prove of
                           (rootRes, Some err) \<Rightarrow>
                             (Some (Upstream err), [Lookup (clientID, height, prove)])
                         | (rootRes, None) \<Rightarrow>
                             (map_option Upstream (PrintOutput rootRes),
                              [Lookup (clientID, height, prove), Output rootRes])))))\<rparr>"

text \<open>
  \<open>utils.QueryTendermintHeader\<close> and \<open>utils.QueryNodeConsensusState\<close> take the CLI
  context only and return three values, of which the commands discard the second.
  \<open>GetCmdQueryHeader\<close> sets no \<open>Args\<close>, and cobra then accepts any arguments.
\<close>

definition GetCmdQueryHeader ::
  "('h \<times> 'x \<times> 'e option) \<Rightarrow> ('h \<Rightarrow> 'e option) \<Rightarrow> ('k, 'e, unit, 'h) Command" where
  "GetCmdQueryHeader QueryTendermintHeader PrintOutput =
     \<lparr>Args = ArbitraryArgs,
      Flags = [],
      RunE = (\<lambda>viper args.
        case QueryTendermintHeader of
          (header, _, Some err) \<Rightarrow> (Some (Upstream err), [Lookup ()])
        | (header, _, None) \<Rightarrow>
            (map_option Upstream (PrintOutput header), [Lookup (), Output header]))\<rparr>"

definition GetCmdNodeConsensusState ::
  "('s \<times> 'x \<times> 'e option) \<Rightarrow> ('s \<Rightarrow> 'e option) \<Rightarrow> string \<Rightarrow> ('k, 'e, unit, 's) Command" where
  "GetCmdNodeConsensusState QueryNodeConsensusState PrintOutput queryRoute =
     \<lparr>Args = ExactArgs 0,
      Flags = [],
      RunE = (\<lambda>viper args.
        case QueryNodeConsensusState of
          (state, _, Some err) \<Rightarrow> (Some (Upstream err), [Lookup ()])
        | (state, _, None) \<Rightarrow>
            (map_option Upstream (PrintOutput state), [Lookup (), Output state]))\<rparr>"

text \<open>
  Modelled from the spec: the type \<open>commitment.Prefix\<close> and its constructor
  \<open>commitment.NewPrefix\<close> are declared outside \<open>query.go\<close>. The specification's
  CommitmentPrefix is a fixed byte prefix, so a prefix is the bytes it was made from.
\<close>

datatype Prefix = NewPrefix (KeyPrefix: string)

definition GetCmdQueryPath ::
  "(Prefix \<Rightarrow> 'e option) \<Rightarrow> string \<Rightarrow> ('k, 'e, unit, Prefix) Command" where
  "GetCmdQueryPath PrintOutput storeName =
     \<lparr>Args = ArbitraryArgs,
      Flags = [],
      RunE = (\<lambda>viper args.
        let path = NewPrefix ''ibc'' in
        (map_option Upstream (PrintOutput path), [Output path]))\<rparr>"

section \<open>The commitment root registry of the specification\<close>

text \<open>
  Modelled from the spec: \<open>utils.QueryCommitmentRoot\<close>, the lookup behind
  \<open>GetCmdQueryRoot\<close>, is declared outside \<open>query.go\<close>. The specification's
  CommitmentRootRegistry maps (client identifier, height) to a previously verified
  commitment root, and its query "looks up the root recorded for exactly (id, height);
  fails with RootNotFound if that exact height was never verified for that client"; with
  \<open>prove\<close> it attaches the proof for that entry. A QueryResult is a value, a height and
  an optional proof. How a proof is built is left open by the specification, so the
  registry carries the proof of each entry as a function. As the Go function does, the
  query returns a result and an error or nil; with an error the result is the zero value.
\<close>

datatype query_error =
    InvalidIdentifier | InvalidHeight | ClientNotFound | ConsensusStateNotFound
  | RootNotFound | HeightNotAvailable | ConsensusStateExpired | ProofGenerationFailed

record 'p QueryResult =
  qr_value :: string
  qr_height :: "64 word"
  qr_proof :: "'p option"

record 'p CommitmentRootRegistry =
  roots :: "string \<times> 64 word \<rightharpoonup> string"
  latest :: "64 word"
  inclusion_proof :: "string \<times> 64 word \<Rightarrow> 'p"

definition queryCommitmentRoot ::
  "'p CommitmentRootRegistry \<Rightarrow> string \<Rightarrow> 64 word \<Rightarrow> bool \<Rightarrow>
     'p QueryResult \<times> query_error option" where
  "queryCommitmentRoot reg clientID height prove =
     (case roots reg (clientID, height) of
        None \<Rightarrow> (\<lparr>qr_value = [], qr_height = 0, qr_proof = None\<rparr>, Some RootNotFound)
      | Some root \<Rightarrow>
          (\<lparr>qr_value = root, qr_height = latest reg,
            qr_proof = (if prove then Some (inclusion_proof reg (clientID, height)) else None)\<rparr>,
           None))"

text \<open>A root is recorded for the client at height \<open>h\<close> and at no other height.\<close>

definition recorded_only_at :: "'p CommitmentRootRegistry \<Rightarrow> string \<Rightarrow> 64 word \<Rightarrow> bool" where
  "recorded_only_at reg clientID h \<longleftrightarrow>
     roots reg (clientID, h) \<noteq> None \<and> (\<forall>x. x \<noteq> h \<longrightarrow> roots reg (clientID, x) = None)"

section \<open>Properties of the library functions\<close>

declare TrimLeftSpace.simps [simp del] TrimRightSpace.simps [simp del] blank.simps [simp del]

subsection \<open>\<open>TrimSpace\<close> returns the empty string exactly on the blank strings\<close>

lemma white_space_nonempty: "w \<in> set white_space \<Longrightarrow> w \<noteq> []"
  by (auto simp: white_space_def)

lemma leading_space_Some:
  "leading_space s = Some w \<Longrightarrow> w \<in> set white_space \<and> prefix w s"
  unfolding leading_space_def by (auto simp: find_Some_iff)

lemma trailing_space_Some:
  "trailing_space s = Some w \<Longrightarrow> w \<in> set white_space \<and> suffix w s"
  unfolding trailing_space_def by (auto simp: find_Some_iff)

lemma white_space_prefix_free_all:
  "\<forall>w\<in>set white_space. \<forall>w'\<in>set white_space. prefix w w' \<longrightarrow> w = w'"
  by code_simp

lemma white_space_prefix_free:
  "w \<in> set white_space \<Longrightarrow> w' \<in> set white_space \<Longrightarrow> prefix w w' \<Longrightarrow> w = w'"
  using white_space_prefix_free_all by blast

lemma leading_space_Nil: "leading_space [] = None"
  by code_simp

lemma trailing_space_Nil: "trailing_space [] = None"
  by code_simp

lemma leading_space_append:
  assumes "w \<in> set white_space"
  shows "leading_space (w @ s) = Some w"
proof -
  have "\<exists>x\<in>set white_space. prefix x (w @ s)"
    using assms by (intro bexI [of _ w]) simp_all
  then obtain w' where w': "leading_space (w @ s) = Some w'"
    unfolding leading_space_def by (cases "find (\<lambda>x. prefix x (w @ s)) white_space") (auto simp: find_None_iff)
  then have "w' \<in> set white_space" and "prefix w' (w @ s)"
    using leading_space_Some by blast+
  with assms have "prefix w w' \<or> prefix w' w"
    by (metis prefix_same_cases prefixI)
  with assms \<open>w' \<in> set white_space\<close> have "w' = w"
    using white_space_prefix_free by blast
  with w' show ?thesis by simp
qed

lemma blank_Nil: "blank []"
  by (subst blank.simps) simp

lemma blank_Cons:
  assumes "w \<in> set white_space" and "blank s"
  shows "blank (w @ s)"
proof -
  from assms(2) have "prefix w (w @ s) \<and> blank (drop (length w) (w @ s))"
    by simp
  with assms(1) show ?thesis
    by (subst blank.simps) blast
qed

lemma blank_TrimLeftSpace: "blank s \<Longrightarrow> TrimLeftSpace s = []"
proof (induction s rule: blank.induct)
  case (1 s)
  show ?case
  proof (cases "s = []")
    case True
    then show ?thesis
      by (subst TrimLeftSpace.simps) (simp add: leading_space_Nil)
  next
    case False
    with "1.prems" obtain w where w: "w \<in> set white_space" "prefix w s"
      and b: "blank (drop (length w) s)"
      by (subst (asm) blank.simps) auto
    from w(2) have s: "s = w @ drop (length w) s"
      by (auto simp: prefix_def)
    from w b have "TrimLeftSpace (drop (length w) s) = []"
      using "1.IH" by blast
    moreover from w(1) have "leading_space (w @ drop (length w) s) = Some w"
      by (rule leading_space_append)
    with s have "leading_space s = Some w" by simp
    ultimately show ?thesis
      by (subst TrimLeftSpace.simps) simp
  qed
qed

lemma TrimLeftSpace_blank: "TrimLeftSpace s = [] \<Longrightarrow> blank s"
proof (induction s rule: TrimLeftSpace.induct)
  case (1 s)
  show ?case
  proof (cases "leading_space s")
    case None
    with "1.prems" have "s = []" by (subst (asm) TrimLeftSpace.simps) simp
    then show ?thesis by (simp add: blank_Nil)
  next
    case (Some w)
    then have w: "w \<in> set white_space" "prefix w s"
      using leading_space_Some by blast+
    from Some "1.prems" have "TrimLeftSpace (drop (length w) s) = []"
      by (subst (asm) TrimLeftSpace.simps) simp
    with "1.IH" Some have "blank (drop (length w) s)" by blast
    with w(1) have "blank (w @ drop (length w) s)" by (rule blank_Cons)
    moreover from w(2) have "w @ drop (length w) s = s"
      by (auto simp: prefix_def)
    ultimately show ?thesis by simp
  qed
qed

lemma leading_space_TrimLeftSpace: "leading_space (TrimLeftSpace s) = None"
proof (induction s rule: TrimLeftSpace.induct)
  case (1 s)
  then show ?case
    by (subst TrimLeftSpace.simps) (cases "leading_space s", auto)
qed

lemma TrimRightSpace_concat:
  "TrimRightSpace s = [] \<Longrightarrow> \<exists>ws. set ws \<subseteq> set white_space \<and> s = concat ws"
proof (induction s rule: TrimRightSpace.induct)
  case (1 s)
  show ?case
  proof (cases "trailing_space s")
    case None
    with "1.prems" have "s = []" by (subst (asm) TrimRightSpace.simps) simp
    then have "set [] \<subseteq> set white_space \<and> s = concat []" by simp
    then show ?thesis by blast
  next
    case (Some w)
    then have w: "w \<in> set white_space" "suffix w s"
      using trailing_space_Some by blast+
    from Some "1.prems" have "TrimRightSpace (take (length s - length w) s) = []"
      by (subst (asm) TrimRightSpace.simps) simp
    with "1.IH" Some obtain ws where ws: "set ws \<subseteq> set white_space"
       "take (length s - length w) s = concat ws" by blast
    from w(2) have "s = take (length s - length w) s @ w"
      by (auto simp: suffix_def)
    with ws w(1) have "set (ws @ [w]) \<subseteq> set white_space \<and> s = concat (ws @ [w])"
      by simp
    then show ?thesis by blast
  qed
qed

lemma concat_leading_space:
  assumes "set ws \<subseteq> set white_space" and "concat ws \<noteq> []"
  shows "leading_space (concat ws) \<noteq> None"
proof (cases ws)
  case Nil
  with assms show ?thesis by simp
next
  case (Cons w ws')
  with assms have "w \<in> set white_space" by simp
  then show ?thesis
    unfolding Cons by (simp add: leading_space_append)
qed

lemma TrimSpace_empty_iff: "TrimSpace s = [] \<longleftrightarrow> blank s"
proof
  assume "TrimSpace s = []"
  then obtain ws where ws: "set ws \<subseteq> set white_space" "TrimLeftSpace s = concat ws"
    unfolding TrimSpace_def using TrimRightSpace_concat by blast
  have "TrimLeftSpace s = []"
  proof (rule ccontr)
    assume "TrimLeftSpace s \<noteq> []"
    with ws have "leading_space (TrimLeftSpace s) \<noteq> None"
      using concat_leading_space by metis
    then show False by (simp add: leading_space_TrimLeftSpace)
  qed
  then show "blank s" by (rule TrimLeftSpace_blank)
next
  assume "blank s"
  then have "TrimLeftSpace s = []" by (rule blank_TrimLeftSpace)
  then show "TrimSpace s = []"
    by (simp add: TrimSpace_def TrimRightSpace.simps [of "[]"] trailing_space_Nil)
qed

subsection \<open>\<open>ParseUint\<close> accepts exactly the base-10 notations of the 64-bit values\<close>

lemma cutoff_val: "unat cutoff = 1844674407370955162"
  by (simp add: cutoff_def)

lemma maxVal_top: "\<not> n > maxVal"
proof -
  have "maxVal = - 1" by (simp add: maxVal_def)
  moreover have "n \<le> - 1" by simp
  ultimately have "n \<le> maxVal" by (simp only:)
  then show ?thesis by (simp only: not_less)
qed

lemma digit_of_digit: "is_digit c \<Longrightarrow> digit_of c = Some (of_char c - 48)"
  by (simp add: digit_of_def is_digit_def)

lemma digit_of_nondigit: "\<not> is_digit c \<Longrightarrow> digit_of c = None \<or> (\<exists>d\<ge>10. digit_of c = Some d)"
  by (auto simp: digit_of_def is_digit_def Let_def)

lemma decimal_ge: "a \<le> decimal a cs"
proof (induction cs arbitrary: a)
  case Nil show ?case by (simp add: decimal_def)
next
  case (Cons c cs)
  have "a \<le> a * 10 + (of_char c - 48)" by simp
  also have "\<dots> \<le> decimal (a * 10 + (of_char c - 48)) cs" by (rule Cons.IH)
  finally show ?case by (simp add: decimal_def)
qed

lemma loop_step:
  assumes "d < 10"
  shows "(if n \<ge> cutoff then Inl ErrRange
          else
            let n' = n * 10; n1 = n' + of_nat d in
            if n1 < n' \<or> n1 > maxVal then Inl ErrRange
            else f n1) =
         (if unat n * 10 + d < 2 ^ 64 then f (of_nat (unat n * 10 + d)) else Inl ErrRange)"
proof (cases "n \<ge> cutoff")
  case True
  then have "unat n \<ge> 1844674407370955162"
    by (simp add: word_le_nat_alt cutoff_val)
  then have "\<not> unat n * 10 + d < 2 ^ 64" by simp
  with True show ?thesis by simp
next
  case False
  then have n: "unat n < 1844674407370955162"
    by (simp add: word_le_nat_alt cutoff_val)
  then have m: "unat (n * 10) = unat n * 10"
    by (simp add: unat_word_ariths)
  have d: "unat (of_nat d :: 64 word) = d"
    using assms by (simp add: unat_of_nat)
  have s: "unat (n * 10 + of_nat d) = (unat n * 10 + d) mod 2 ^ 64"
    by (subst unat_word_ariths(1)) (simp only: m d, simp)
  have e: "(of_nat (unat n * 10 + d) :: 64 word) = n * 10 + of_nat d"
    by simp
  show ?thesis
  proof (cases "unat n * 10 + d < 2 ^ 64")
    case True
    then have "\<not> n * 10 + of_nat d < n * 10"
      by (simp add: word_less_nat_alt s m)
    with False True show ?thesis
      by (simp add: Let_def maxVal_top e)
  next
    case F: False
    then have "unat n * 10 + d - 2 ^ 64 < unat n * 10" using assms n by simp
    moreover have "(unat n * 10 + d) mod 2 ^ 64 = unat n * 10 + d - 2 ^ 64"
      using F assms n by (simp add: mod_if)
    ultimately have "n * 10 + of_nat d < n * 10"
      by (simp add: word_less_nat_alt s m)
    with False F show ?thesis by (simp add: Let_def)
  qed
qed

lemma ParseUint_loop_digits:
  "list_all is_digit cs \<Longrightarrow>
   ParseUint_loop n cs =
     (if decimal (unat n) cs < 2 ^ 64 then Inr (of_nat (decimal (unat n) cs)) else Inl ErrRange)"
proof (induction cs arbitrary: n)
  case Nil
  have "unat n < 2 ^ 64" using unsigned_less [of n] by simp
  then show ?case by (simp add: decimal_def)
next
  case (Cons c cs)
  then have c: "is_digit c" and cs: "list_all is_digit cs" by simp_all
  define d where "d = (of_char c :: nat) - 48"
  have d: "d < 10" using c by (auto simp: d_def is_digit_def)
  have dc: "digit_of c = Some d" using c by (simp add: digit_of_digit d_def)
  have "ParseUint_loop n (c # cs) =
     (if n \<ge> cutoff then Inl ErrRange
          else
            let n' = n * 10; n1 = n' + of_nat d in
            if n1 < n' \<or> n1 > maxVal then Inl ErrRange
            else ParseUint_loop n1 cs)"
    using d by (simp add: dc)
  also have "\<dots> = (if unat n * 10 + d < 2 ^ 64 then ParseUint_loop (of_nat (unat n * 10 + d)) cs else Inl ErrRange)"
    by (rule loop_step [OF d])
  finally have step: "ParseUint_loop n (c # cs) =
     (if unat n * 10 + d < 2 ^ 64 then ParseUint_loop (of_nat (unat n * 10 + d)) cs else Inl ErrRange)" .
  have dec: "decimal (unat n) (c # cs) = decimal (unat n * 10 + d) cs"
    by (simp add: decimal_def d_def)
  show ?case
  proof (cases "unat n * 10 + d < 2 ^ 64")
    case True
    then have u: "unat (of_nat (unat n * 10 + d) :: 64 word) = unat n * 10 + d"
      by (simp only: unat_of_nat) simp
    show ?thesis
      unfolding step dec using True Cons.IH [OF cs, of "of_nat (unat n * 10 + d)"]
      by (simp only: u if_True)
  next
    case False
    moreover have "unat n * 10 + d \<le> decimal (unat n * 10 + d) cs" by (rule decimal_ge)
    ultimately have "\<not> decimal (unat n * 10 + d) cs < 2 ^ 64" by simp
    with False show ?thesis unfolding step dec by simp
  qed
qed

lemma ParseUint_loop_nondigit:
  "\<not> list_all is_digit cs \<Longrightarrow> \<exists>e. ParseUint_loop n cs = Inl e"
proof (induction cs arbitrary: n)
  case Nil then show ?case by simp
next
  case (Cons c cs)
  show ?case
  proof (cases "is_digit c")
    case False
    with digit_of_nondigit [of c] show ?thesis by auto
  next
    case True
    with Cons.prems have "\<not> list_all is_digit cs" by simp
    then have "\<And>m. \<exists>e. ParseUint_loop m cs = Inl e" by (rule Cons.IH)
    then show ?thesis
      by (auto simp: Let_def split: option.splits)
  qed
qed


lemma ParseUint_value:
  assumes "uint64_token s"
  shows "ParseUint s = Inr (of_nat (decimal 0 s))"
proof -
  from assms have "s \<noteq> []" "list_all is_digit s" "decimal 0 s < 2 ^ 64"
    by (simp_all add: uint64_token_def)
  then show ?thesis
    using ParseUint_loop_digits [of s 0] by (simp add: ParseUint_def)
qed

lemma ParseUint_range:
  assumes "s \<noteq> []" and "list_all is_digit s" and "2 ^ 64 \<le> decimal 0 s"
  shows "ParseUint s = Inl ErrRange"
  using assms ParseUint_loop_digits [of s 0] by (simp add: ParseUint_def)

lemma ParseUint_error:
  assumes "\<not> uint64_token s"
  shows "\<exists>e. ParseUint s = Inl e"
proof (cases "s = []")
  case True
  then show ?thesis by (simp add: ParseUint_def)
next
  case False
  show ?thesis
  proof (cases "list_all is_digit s")
    case True
    with False assms have "2 ^ 64 \<le> decimal 0 s"
      by (simp add: uint64_token_def)
    with False True show ?thesis
      using ParseUint_range by blast
  next
    case F: False
    with False show ?thesis
      using ParseUint_loop_nondigit [of s 0] by (simp add: ParseUint_def)
  qed
qed

lemma ParseUint_Inr_iff:
  "ParseUint s = Inr n \<longleftrightarrow> uint64_token s \<and> n = of_nat (decimal 0 s)"
proof (cases "uint64_token s")
  case True
  then show ?thesis by (auto simp: ParseUint_value)
next
  case False
  then show ?thesis using ParseUint_error [of s] by auto
qed

section \<open>Properties of the commands\<close>

subsection \<open>Concrete inputs\<close>

lemma blank_tab_space: "blank [CHR 0x09, CHR 0x20]"
  by code_simp

lemma TrimSpace_client0: "TrimSpace ''client0'' = ''client0''"
  by code_simp

lemma client0_not_blank: "\<not> blank ''client0''"
  by (simp add: TrimSpace_empty_iff [symmetric] TrimSpace_client0)

lemma TrimSpace_tab_space: "TrimSpace [CHR 0x09, CHR 0x20] = []"
  by code_simp

lemma token_100: "uint64_token ''100''"
  by (simp add: uint64_token_def is_digit_def decimal_def)

subsection \<open>Flags\<close>


subsection \<open>The outcome of every run of a store-backed query\<close>

lemma outcome_ClientState:
  "Execute (GetCmdQueryClientState FlagProve QueryClientState PrintOutput queryRoute)
     supplied args =
   (case args of
      [clientID] \<Rightarrow>
        if blank clientID then (Some (errorString ''client ID can't be blank''), [])
        else
          let prove = viper_GetBool supplied [(FlagProve, True)] FlagProve in
          (case QueryClientState clientID prove of
             (res, Some e) \<Rightarrow> (Some (Upstream e), [Lookup (clientID, prove)])
           | (res, None) \<Rightarrow>
               (map_option Upstream (PrintOutput res),
                [Lookup (clientID, prove), Output res]))
    | _ \<Rightarrow> (Some (ArgsError 1 (length args)), []))"
  by (simp add: Execute_def ExactArgs_def GetCmdQueryClientState_def TrimSpace_empty_iff
      split: list.split)

lemma outcome_ConsensusState:
  "Execute (GetCmdQueryConsensusState FlagProve QueryConsensusStateProof PrintOutput queryRoute)
     supplied args =
   (case args of
      [clientID] \<Rightarrow>
        if blank clientID then (Some (errorString ''client ID can't be blank''), [])
        else
          let prove = viper_GetBool supplied [(FlagProve, True)] FlagProve in
          (case QueryConsensusStateProof clientID prove of
             (res, Some e) \<Rightarrow> (Some (Upstream e), [Lookup (clientID, prove)])
           | (res, None) \<Rightarrow>
               (map_option Upstream (PrintOutput res),
                [Lookup (clientID, prove), Output res]))
    | _ \<Rightarrow> (Some (ArgsError 1 (length args)), []))"
  by (simp add: Execute_def ExactArgs_def GetCmdQueryConsensusState_def TrimSpace_empty_iff
      split: list.split)

lemma outcome_Root:
  "Execute (GetCmdQueryRoot FlagProve QueryCommitmentRoot PrintOutput queryRoute)
     supplied args =
   (case args of
      [clientID, arg1] \<Rightarrow>
        if blank clientID then (Some (errorString ''client ID can't be blank''), [])
        else if \<not> uint64_token arg1 then
          (Some (errorString (''expected integer height, got: '' @ arg1)), [])
        else
          let height = of_nat (decimal 0 arg1);
              prove = viper_GetBool supplied [(FlagProve, True)] FlagProve in
          (case QueryCommitmentRoot clientID height prove of
             (res, Some e) \<Rightarrow> (Some (Upstream e), [Lookup (clientID, height, prove)])
           | (res, None) \<Rightarrow>
               (map_option Upstream (PrintOutput res),
                [Lookup (clientID, height, prove), Output res]))
    | _ \<Rightarrow> (Some (ArgsError 2 (length args)), []))"
proof (cases "\<exists>clientID arg1. args = [clientID, arg1]")
  case False
  then show ?thesis
    by (cases args rule: list.exhaust)
      (auto simp: Execute_def ExactArgs_def GetCmdQueryRoot_def split: list.split)
next
  case True
  then obtain clientID arg1 where a: "args = [clientID, arg1]" by blast
  show ?thesis
  proof (cases "uint64_token arg1")
    case True
    then have "ParseUint arg1 = Inr (of_nat (decimal 0 arg1))"
      by (rule ParseUint_value)
    with a True show ?thesis
      by (simp add: Execute_def ExactArgs_def GetCmdQueryRoot_def TrimSpace_empty_iff Let_def)
  next
    case False
    then obtain e where "ParseUint arg1 = Inl e"
      using ParseUint_error by blast
    with a False show ?thesis
      by (simp add: Execute_def ExactArgs_def GetCmdQueryRoot_def TrimSpace_empty_iff)
  qed
qed


section \<open>The claims\<close>

text \<open>
  In the witnesses the flag key is \<open>''prove''\<close>, the query functions are small concrete
  functions, and \<open>PrintOutput\<close> never fails.
\<close>

text \<open>
  C1. A blank client identifier (the empty string, or white space only) makes each of
  the three store-backed queries, client state, consensus state and commitment root,
  return the error "client ID can't be blank", and the query function is never called:
  the run has no event, whatever the flags and, for the root, whatever the height token.
\<close>

theorem blank_identifier_rejected:
  assumes "blank clientID"
  shows
    "Execute (GetCmdQueryClientState FlagProve1 QueryClientState PrintOutput1 queryRoute1)
       supplied1 [clientID] = (Some (errorString ''client ID can't be blank''), [])
     \<and> Execute (GetCmdQueryConsensusState FlagProve2 QueryConsensusStateProof PrintOutput2 queryRoute2)
       supplied2 [clientID] = (Some (errorString ''client ID can't be blank''), [])
     \<and> Execute (GetCmdQueryRoot FlagProve3 QueryCommitmentRoot PrintOutput3 queryRoute3)
       supplied3 [clientID, height] = (Some (errorString ''client ID can't be blank''), [])"
proof -
  from assms have "TrimSpace clientID = []"
    by (simp add: TrimSpace_empty_iff)
  then show ?thesis
    by (simp add: Execute_def ExactArgs_def GetCmdQueryClientState_def
        GetCmdQueryConsensusState_def GetCmdQueryRoot_def)
qed

theorem blank_identifier_rejected_witness:
  "blank [CHR 0x09, CHR 0x20]
   \<and> Execute (GetCmdQueryClientState ''prove'' (\<lambda>clientID prove. (clientID, None :: unit option))
         (\<lambda>res. None) ''client'') Map.empty [[CHR 0x09, CHR 0x20]]
       = (Some (errorString ''client ID can't be blank''), [])
   \<and> Execute (GetCmdQueryConsensusState ''prove'' (\<lambda>clientID prove. (clientID, None :: unit option))
         (\<lambda>res. None) ''client'') Map.empty [[CHR 0x09, CHR 0x20]]
       = (Some (errorString ''client ID can't be blank''), [])
   \<and> Execute (GetCmdQueryRoot ''prove'' (\<lambda>clientID height prove. (clientID, None :: unit option))
         (\<lambda>res. None) ''client'') Map.empty [[CHR 0x09, CHR 0x20], ''abc'']
       = (Some (errorString ''client ID can't be blank''), [])"
  using blank_tab_space
    blank_identifier_rejected [OF blank_tab_space, where ?FlagProve1.0 = "''prove''"
      and QueryClientState = "\<lambda>clientID prove. (clientID, None :: unit option)"
      and ?PrintOutput1.0 = "\<lambda>res. None" and ?queryRoute1.0 = "''client''"
      and ?supplied1.0 = Map.empty
      and ?FlagProve2.0 = "''prove''"
      and QueryConsensusStateProof = "\<lambda>clientID prove. (clientID, None :: unit option)"
      and ?PrintOutput2.0 = "\<lambda>res. None" and ?queryRoute2.0 = "''client''"
      and ?supplied2.0 = Map.empty
      and ?FlagProve3.0 = "''prove''"
      and QueryCommitmentRoot = "\<lambda>clientID height prove. (clientID, None :: unit option)"
      and ?PrintOutput3.0 = "\<lambda>res. None" and ?queryRoute3.0 = "''client''"
      and ?supplied3.0 = Map.empty and height = "''abc''"]
  by simp

text \<open>
  C2. With a client identifier that is not blank, a height token that is not the
  base-10 notation of an unsigned 64-bit integer (such as "abc" or "-1") makes the root
  query return the error "expected integer height, got: " followed by the token as the
  caller wrote it, and the query function is never called.
\<close>

theorem malformed_height_rejected:
  assumes "\<not> blank clientID" and "\<not> uint64_token arg1"
  shows
    "Execute (GetCmdQueryRoot FlagProve QueryCommitmentRoot PrintOutput queryRoute)
       supplied [clientID, arg1]
     = (Some (errorString (''expected integer height, got: '' @ arg1)), [])"
proof -
  from assms(1) have "TrimSpace clientID \<noteq> []"
    by (simp add: TrimSpace_empty_iff)
  moreover from assms(2) obtain e where "ParseUint arg1 = Inl e"
    using ParseUint_error by blast
  ultimately show ?thesis
    by (simp add: Execute_def ExactArgs_def GetCmdQueryRoot_def)
qed

theorem malformed_height_rejected_witness:
  "\<not> blank ''client0'' \<and> \<not> uint64_token ''abc'' \<and> \<not> uint64_token ''-1''
   \<and> Execute (GetCmdQueryRoot ''prove'' (\<lambda>clientID height prove. (clientID, None :: unit option))
         (\<lambda>res. None) ''client'') Map.empty [''client0'', ''abc'']
       = (Some (errorString ''expected integer height, got: abc''), [])
   \<and> Execute (GetCmdQueryRoot ''prove'' (\<lambda>clientID height prove. (clientID, None :: unit option))
         (\<lambda>res. None) ''client'') Map.empty [''client0'', ''-1'']
       = (Some (errorString ''expected integer height, got: -1''), [])"
proof -
  have a: "\<not> uint64_token ''abc''" by (simp add: uint64_token_def is_digit_def)
  have b: "\<not> uint64_token ''-1''" by (simp add: uint64_token_def is_digit_def)
  show ?thesis
    using client0_not_blank a b
      malformed_height_rejected [OF client0_not_blank a, where FlagProve = "''prove''"
        and QueryCommitmentRoot = "\<lambda>clientID height prove. (clientID, None :: unit option)"
        and PrintOutput = "\<lambda>res. None" and queryRoute = "''client''" and supplied = Map.empty]
      malformed_height_rejected [OF client0_not_blank b, where FlagProve = "''prove''"
        and QueryCommitmentRoot = "\<lambda>clientID height prove. (clientID, None :: unit option)"
        and PrintOutput = "\<lambda>res. None" and queryRoute = "''client''" and supplied = Map.empty]
    by simp
qed

text \<open>
  C4. The root query is a lookup at exactly the height the token denotes. Here the
  lookup is the registry of the specification: if for a client a root is recorded at
  height \<open>h\<close> only, the root query for that client with a token that denotes any other
  height returns RootNotFound; the registry was asked for the height of the token, and
  nothing is output.
\<close>

theorem exact_height_lookup:
  assumes "\<not> blank clientID" and "recorded_only_at reg clientID h"
    and "uint64_token arg1" and "decimal 0 arg1 \<noteq> unat h"
  shows
    "Execute (GetCmdQueryRoot FlagProve (queryCommitmentRoot reg) PrintOutput queryRoute)
       supplied [clientID, arg1]
     = (Some (Upstream RootNotFound),
        [Lookup (clientID, of_nat (decimal 0 arg1),
           viper_GetBool supplied [(FlagProve, True)] FlagProve)])"
proof -
  from assms(1) have t: "TrimSpace clientID \<noteq> []"
    by (simp add: TrimSpace_empty_iff)
  from assms(3) have p: "ParseUint arg1 = Inr (of_nat (decimal 0 arg1))"
    by (rule ParseUint_value)
  from assms(3) have "decimal 0 arg1 < 2 ^ 64"
    by (simp add: uint64_token_def)
  then have "unat (of_nat (decimal 0 arg1) :: 64 word) = decimal 0 arg1"
    by (simp only: unat_of_nat) simp
  with assms(4) have "(of_nat (decimal 0 arg1) :: 64 word) \<noteq> h"
    by auto
  with assms(2) have "roots reg (clientID, of_nat (decimal 0 arg1)) = None"
    by (simp add: recorded_only_at_def)
  with t p show ?thesis
    by (simp add: Execute_def ExactArgs_def GetCmdQueryRoot_def queryCommitmentRoot_def)
qed

theorem exact_height_lookup_witness:
  "\<not> blank ''client0''
   \<and> recorded_only_at
        \<lparr>roots = [(''client0'', 100) \<mapsto> ''root''], latest = 100, inclusion_proof = (\<lambda>k. ())\<rparr>
        ''client0'' 100
   \<and> uint64_token ''99'' \<and> decimal 0 ''99'' \<noteq> unat (100 :: 64 word)
   \<and> uint64_token ''101'' \<and> decimal 0 ''101'' \<noteq> unat (100 :: 64 word)
   \<and> Execute (GetCmdQueryRoot ''prove''
          (queryCommitmentRoot
             \<lparr>roots = [(''client0'', 100) \<mapsto> ''root''], latest = 100, inclusion_proof = (\<lambda>k. ())\<rparr>)
          (\<lambda>res. None) ''client'') Map.empty [''client0'', ''99'']
       = (Some (Upstream RootNotFound), [Lookup (''client0'', 99, True)])
   \<and> Execute (GetCmdQueryRoot ''prove''
          (queryCommitmentRoot
             \<lparr>roots = [(''client0'', 100) \<mapsto> ''root''], latest = 100, inclusion_proof = (\<lambda>k. ())\<rparr>)
          (\<lambda>res. None) ''client'') Map.empty [''client0'', ''101'']
       = (Some (Upstream RootNotFound), [Lookup (''client0'', 101, True)])"
proof -
  let ?reg = "\<lparr>roots = [(''client0'', 100 :: 64 word) \<mapsto> ''root''], latest = 100,
                inclusion_proof = (\<lambda>k. ())\<rparr>"
  have r: "recorded_only_at ?reg ''client0'' 100"
    by (simp add: recorded_only_at_def)
  have a: "uint64_token ''99''" by (simp add: uint64_token_def is_digit_def decimal_def)
  have a': "decimal 0 ''99'' \<noteq> unat (100 :: 64 word)" by (simp add: decimal_def)
  have b: "uint64_token ''101''" by (simp add: uint64_token_def is_digit_def decimal_def)
  have b': "decimal 0 ''101'' \<noteq> unat (100 :: 64 word)" by (simp add: decimal_def)
  show ?thesis
    using client0_not_blank r a a' b b'
      exact_height_lookup [OF client0_not_blank r a a', where FlagProve = "''prove''"
        and PrintOutput = "\<lambda>res. None" and queryRoute = "''client''" and supplied = Map.empty]
      exact_height_lookup [OF client0_not_blank r b b', where FlagProve = "''prove''"
        and PrintOutput = "\<lambda>res. None" and queryRoute = "''client''" and supplied = Map.empty]
    by (simp add: decimal_def viper_GetBool_def)
qed

text \<open>
  C5. The path query hands the same prefix to the output in every run: the prefix made
  of the three bytes "ibc", whatever the store name, the arguments and the flags. It
  calls no query function.
\<close>

theorem commitment_prefix_constant:
  "Execute (GetCmdQueryPath PrintOutput storeName) supplied args
     = (map_option Upstream (PrintOutput (NewPrefix ''ibc'')), [Output (NewPrefix ''ibc'')])
   \<and> KeyPrefix (NewPrefix ''ibc'') = ''ibc''
   \<and> length (KeyPrefix (NewPrefix ''ibc'')) = 3"
  by (simp add: Execute_def ArbitraryArgs_def GetCmdQueryPath_def Let_def)

theorem commitment_prefix_constant_witness:
  "Execute (GetCmdQueryPath (\<lambda>path. None :: unit option) ''ibc''
       :: (string, unit, unit, Prefix) Command) Map.empty []
   = (None, [Output (NewPrefix ''ibc'')])
   \<and> Execute (GetCmdQueryPath (\<lambda>path. None :: unit option) ''other''
       :: (string, unit, unit, Prefix) Command) [''prove'' \<mapsto> False] [''arg'']
   = (None, [Output (NewPrefix ''ibc'')])"
  using
    commitment_prefix_constant [where PrintOutput = "\<lambda>path. None :: unit option"
      and storeName = "''ibc''" and supplied = "Map.empty :: string \<rightharpoonup> bool" and args = "[]"]
    commitment_prefix_constant [where PrintOutput = "\<lambda>path. None :: unit option"
      and storeName = "''other''" and supplied = "[''prove'' \<mapsto> False]" and args = "[''arg'']"]
  by simp

text \<open>
  C6, as stated, fails in two runs of the client state query. In the first the lookup
  succeeds and the output step then fails: the run returns an error, and the result was
  handed to the output. In the second the identifier is blank: the run returns an error
  that is not the lookup's, for the lookup was never called.
\<close>

theorem output_step_error_counterexample:
  "Execute (GetCmdQueryClientState ''prove'' (\<lambda>clientID prove. (''state'', None))
       (\<lambda>res. Some ()) ''client'') Map.empty [''client0'']
     = (Some (Upstream ()), [Lookup (''client0'', True), Output ''state''])
   \<and> Execute (GetCmdQueryClientState ''prove'' (\<lambda>clientID prove. (''state'', None :: unit option))
       (\<lambda>res. None) ''client'') Map.empty [[CHR 0x09, CHR 0x20]]
     = (Some (errorString ''client ID can't be blank''), [])"
  by (simp add: Execute_def ExactArgs_def GetCmdQueryClientState_def viper_GetBool_def
      TrimSpace_client0 TrimSpace_tab_space)

text \<open>
  C6, amended. Every invocation of the client state, consensus state and root queries
  has the outcome of this table. With the right number of arguments, an identifier that
  is not blank and, for the root, a well-formed height token, the lookup is called once,
  with these arguments; if it returns an error, that error is returned and nothing is
  handed to the output, even if a result came with the error; if it returns no error,
  exactly its result is handed to the output, and the run returns what the output step
  returns. Every other invocation is rejected before the lookup, with an error and no
  output. So nothing is output after a failed lookup, and an error comes with an output
  only when the output step itself fails.
\<close>

theorem store_queries_all_or_nothing:
  "Execute (GetCmdQueryClientState FlagProve1 QueryClientState PrintOutput1 queryRoute1)
     supplied1 args1 =
   (case args1 of
      [clientID] \<Rightarrow>
        if blank clientID then (Some (errorString ''client ID can't be blank''), [])
        else
          let prove = viper_GetBool supplied1 [(FlagProve1, True)] FlagProve1 in
          (case QueryClientState clientID prove of
             (res, Some e) \<Rightarrow> (Some (Upstream e), [Lookup (clientID, prove)])
           | (res, None) \<Rightarrow>
               (map_option Upstream (PrintOutput1 res),
                [Lookup (clientID, prove), Output res]))
    | _ \<Rightarrow> (Some (ArgsError 1 (length args1)), []))
   \<and> Execute (GetCmdQueryConsensusState FlagProve2 QueryConsensusStateProof PrintOutput2 queryRoute2)
     supplied2 args2 =
   (case args2 of
      [clientID] \<Rightarrow>
        if blank clientID then (Some (errorString ''client ID can't be blank''), [])
        else
          let prove = viper_GetBool supplied2 [(FlagProve2, True)] FlagProve2 in
          (case QueryConsensusStateProof clientID prove of
             (res, Some e) \<Rightarrow> (Some (Upstream e), [Lookup (clientID, prove)])
           | (res, None) \<Rightarrow>
               (map_option Upstream (PrintOutput2 res),
                [Lookup (clientID, prove), Output res]))
    | _ \<Rightarrow> (Some (ArgsError 1 (length args2)), []))
   \<and> Execute (GetCmdQueryRoot FlagProve3 QueryCommitmentRoot PrintOutput3 queryRoute3)
     supplied3 args3 =
   (case args3 of
      [clientID, arg1] \<Rightarrow>
        if blank clientID then (Some (errorString ''client ID can't be blank''), [])
        else if \<not> uint64_token arg1 then
          (Some (errorString (''expected integer height, got: '' @ arg1)), [])
        else
          let height = of_nat (decimal 0 arg1);
              prove = viper_GetBool supplied3 [(FlagProve3, True)] FlagProve3 in
          (case QueryCommitmentRoot clientID height prove of
             (res, Some e) \<Rightarrow> (Some (Upstream e), [Lookup (clientID, height, prove)])
           | (res, None) \<Rightarrow>
               (map_option Upstream (PrintOutput3 res),
                [Lookup (clientID, height, prove), Output res]))
    | _ \<Rightarrow> (Some (ArgsError 2 (length args3)), []))"
  by (intro conjI outcome_ClientState outcome_ConsensusState outcome_Root)

theorem store_queries_all_or_nothing_witness:
  "Execute (GetCmdQueryClientState ''prove'' (\<lambda>clientID prove. (''partial'', Some ()))
       (\<lambda>res. None) ''client'') Map.empty [''client0'']
     = (Some (Upstream ()), [Lookup (''client0'', True)])
   \<and> Execute (GetCmdQueryConsensusState ''prove'' (\<lambda>clientID prove. (''state'', None :: unit option))
       (\<lambda>res. None) ''client'') Map.empty [''client0'']
     = (None, [Lookup (''client0'', True), Output ''state''])
   \<and> Execute (GetCmdQueryRoot ''prove'' (\<lambda>clientID height prove. (''root'', None :: unit option))
       (\<lambda>res. None) ''client'') Map.empty [''client0'', ''100'']
     = (None, [Lookup (''client0'', 100, True), Output ''root''])"
  using store_queries_all_or_nothing [where ?FlagProve1.0 = "''prove''"
      and QueryClientState = "\<lambda>clientID prove. (''partial'', Some ())"
      and ?PrintOutput1.0 = "\<lambda>res. None" and ?queryRoute1.0 = "''client''"
      and ?supplied1.0 = Map.empty and ?args1.0 = "[''client0'']"
      and ?FlagProve2.0 = "''prove''"
      and QueryConsensusStateProof = "\<lambda>clientID prove. (''state'', None :: unit option)"
      and ?PrintOutput2.0 = "\<lambda>res. None" and ?queryRoute2.0 = "''client''"
      and ?supplied2.0 = Map.empty and ?args2.0 = "[''client0'']"
      and ?FlagProve3.0 = "''prove''"
      and QueryCommitmentRoot = "\<lambda>clientID height prove. (''root'', None :: unit option)"
      and ?PrintOutput3.0 = "\<lambda>res. None" and ?queryRoute3.0 = "''client''"
      and ?supplied3.0 = Map.empty and ?args3.0 = "[''client0'', ''100'']"]
  by (simp add: client0_not_blank token_100 viper_GetBool_def decimal_def)

text \<open>
  C7. The header query and the node consensus state query output the value alone. Their
  query functions return a value, a second component and an error; in a successful run
  the value is what is handed to the output, and the second component appears nowhere
  in the outcome.
\<close>

theorem header_and_node_state_without_proof:
  "Execute (GetCmdQueryHeader (header, x, None) PrintOutput1) supplied1 args
     = (map_option Upstream (PrintOutput1 header), [Lookup (), Output header])
   \<and> Execute (GetCmdNodeConsensusState (state, y, None) PrintOutput2 queryRoute) supplied2 []
     = (map_option Upstream (PrintOutput2 state), [Lookup (), Output state])"
  by (simp add: Execute_def ArbitraryArgs_def ExactArgs_def GetCmdQueryHeader_def
      GetCmdNodeConsensusState_def)

theorem header_and_node_state_without_proof_witness:
  "Execute (GetCmdQueryHeader (''header'', (7 :: int), None :: unit option) (\<lambda>h. None)
       :: (string, unit, unit, string) Command) Map.empty []
     = (None, [Lookup (), Output ''header''])
   \<and> Execute (GetCmdNodeConsensusState (''state'', (7 :: int), None :: unit option) (\<lambda>s. None) ''client''
       :: (string, unit, unit, string) Command) Map.empty []
     = (None, [Lookup (), Output ''state''])"
  using header_and_node_state_without_proof [where header = "''header''" and x = "7 :: int"
      and ?PrintOutput1.0 = "\<lambda>h. None :: unit option"
      and ?supplied1.0 = "Map.empty :: string \<rightharpoonup> bool" and args = "[]"
      and state = "''state''" and y = "7 :: int" and ?PrintOutput2.0 = "\<lambda>s. None :: unit option"
      and queryRoute = "''client''" and ?supplied2.0 = "Map.empty :: string \<rightharpoonup> bool"]
  by simp

text \<open>
  C8. Height tokens are limited to 64 bits: with a client identifier that is not blank,
  a token of decimal digits that denotes a number of at least \<open>2 ^ 64\<close> is a range
  error of the parser, and the root query returns the height error for it without
  calling the query function.
\<close>

theorem height_limited_to_64_bits:
  assumes "\<not> blank clientID"
    and "arg1 \<noteq> []" and "list_all is_digit arg1" and "2 ^ 64 \<le> decimal 0 arg1"
  shows
    "ParseUint arg1 = Inl ErrRange
     \<and> Execute (GetCmdQueryRoot FlagProve QueryCommitmentRoot PrintOutput queryRoute)
         supplied [clientID, arg1]
       = (Some (errorString (''expected integer height, got: '' @ arg1)), [])"
proof -
  from assms(1) have "TrimSpace clientID \<noteq> []"
    by (simp add: TrimSpace_empty_iff)
  moreover from assms(2-4) have "ParseUint arg1 = Inl ErrRange"
    by (rule ParseUint_range)
  ultimately show ?thesis
    by (simp add: Execute_def ExactArgs_def GetCmdQueryRoot_def)
qed

theorem height_limited_to_64_bits_witness:
  "\<not> blank ''client0'' \<and> ''18446744073709551616'' \<noteq> []
   \<and> list_all is_digit ''18446744073709551616''
   \<and> (2::nat) ^ 64 \<le> decimal 0 ''18446744073709551616''
   \<and> ParseUint ''18446744073709551616'' = Inl ErrRange
   \<and> Execute (GetCmdQueryRoot ''prove'' (\<lambda>clientID height prove. (clientID, None :: unit option))
         (\<lambda>res. None) ''client'') Map.empty [''client0'', ''18446744073709551616'']
       = (Some (errorString ''expected integer height, got: 18446744073709551616''), [])"
proof -
  have a: "''18446744073709551616'' \<noteq> []" by simp
  have b: "list_all is_digit ''18446744073709551616''" by (simp add: is_digit_def)
  have c: "(2::nat) ^ 64 \<le> decimal 0 ''18446744073709551616''" by (simp add: decimal_def)
  show ?thesis
    using client0_not_blank a b c
      height_limited_to_64_bits [OF client0_not_blank a b c, where FlagProve = "''prove''"
        and QueryCommitmentRoot = "\<lambda>clientID height prove. (clientID, None :: unit option)"
        and PrintOutput = "\<lambda>res. None" and queryRoute = "''client''" and supplied = Map.empty]
    by simp
qed

text \<open>
  C9. In the root query the identifier is checked before the height is parsed: with a
  blank client identifier and a malformed height token the error is the one for the
  blank identifier, not the one for the height, and the outcome is the same for every
  other token.
\<close>

theorem identifier_checked_before_height:
  assumes "blank clientID" and "\<not> uint64_token arg1"
  shows
    "Execute (GetCmdQueryRoot FlagProve QueryCommitmentRoot PrintOutput queryRoute)
       supplied [clientID, arg1]
     = (Some (errorString ''client ID can't be blank''), [])
     \<and> fst (Execute (GetCmdQueryRoot FlagProve QueryCommitmentRoot PrintOutput queryRoute)
         supplied [clientID, arg1])
       \<noteq> Some (errorString (''expected integer height, got: '' @ arg1))
     \<and> Execute (GetCmdQueryRoot FlagProve QueryCommitmentRoot PrintOutput queryRoute)
         supplied [clientID, arg1]
       = Execute (GetCmdQueryRoot FlagProve QueryCommitmentRoot PrintOutput queryRoute)
         supplied [clientID, arg1']"
proof -
  from assms(1) have "TrimSpace clientID = []"
    by (simp add: TrimSpace_empty_iff)
  then show ?thesis
    by (simp add: Execute_def ExactArgs_def GetCmdQueryRoot_def)
qed

theorem identifier_checked_before_height_witness:
  "blank [CHR 0x09, CHR 0x20] \<and> \<not> uint64_token ''-1''
   \<and> Execute (GetCmdQueryRoot ''prove'' (\<lambda>clientID height prove. (clientID, None :: unit option))
         (\<lambda>res. None) ''client'') Map.empty [[CHR 0x09, CHR 0x20], ''-1'']
       = (Some (errorString ''client ID can't be blank''), [])"
proof -
  have b: "\<not> uint64_token ''-1''" by (simp add: uint64_token_def is_digit_def)
  show ?thesis
    using blank_tab_space b
      identifier_checked_before_height [OF blank_tab_space b, where FlagProve = "''prove''"
        and QueryCommitmentRoot = "\<lambda>clientID height prove. (clientID, None :: unit option)"
        and PrintOutput = "\<lambda>res. None" and queryRoute = "''client''" and supplied = Map.empty]
    by simp
qed




end
